theory Spec2Isabelle
  imports Complex_Main
begin

section \<open>The exported API contract of Roo-Code (\<^verbatim>\<open>src/exports/roo-code.d.ts\<close>)\<close>

text \<open>
  The source is a TypeScript declaration file: interfaces and type aliases, no function
  bodies. Its content is modelled as it is written: every declaration is a value of
  \<open>ts_decl\<close> holding the type expression of its right-hand side, and a type expression
  means the set of JavaScript data values it admits (\<open>conforms\<close>).
\<close>

subsection \<open>Type expressions and data values\<close>

text \<open>
  The type expressions that occur in the file. A property of an object type is
  (name, optional, type), \<open>optional\<close> being the \<^verbatim>\<open>?\<close> of the source; a tuple element is
  (label, type); \<open>TRef n args\<close> is a reference to the named type \<open>n\<close>, with its type
  arguments (\<^verbatim>\<open>Promise<string>\<close> is \<open>TRef ''Promise'' [TString]\<close>).
\<close>

datatype ts_type =
    TString | TNumber | TBoolean | TVoid | TAny | TUnknown
  | TLit string
  | TUnion "ts_type list"
  | TArray ts_type
  | TTuple "(string option \<times> ts_type) list"
  | TObject "(string \<times> bool \<times> ts_type) list"
  | TFun "(string \<times> bool \<times> ts_type) list" ts_type
  | TRef string "ts_type list"

text \<open>
  JavaScript data values. A \<^verbatim>\<open>number\<close> is a real here: the finite doubles are reals,
  NaN and the infinities are left out. An object is its list of properties.
\<close>

datatype js_value =
    VUndefined | VNull | VString string | VNumber real | VBool bool
  | VArray "js_value list"
  | VObject "(string \<times> js_value) list"

datatype decl_kind = Interface | TypeAlias

record ts_decl =
  d_name :: string
  d_kind :: decl_kind
  d_extends :: "ts_type list"
  d_body :: ts_type

subsection \<open>The declarations of the file, in source order\<close>

text \<open>\<^verbatim>\<open>import { EventEmitter } from "events"\<close>: the imported name and its module.\<close>

definition imported :: "(string \<times> string) list" where
  "imported = [(''EventEmitter'', ''events'')]"

definition TokenUsage :: ts_decl where
  "TokenUsage = \<lparr>d_name = ''TokenUsage'', d_kind = Interface, d_extends = [], d_body = TObject [
    (''totalTokensIn'', False, TNumber),
    (''totalTokensOut'', False, TNumber),
    (''totalCacheWrites'', True, TNumber),
    (''totalCacheReads'', True, TNumber),
    (''totalCost'', False, TNumber),
    (''contextTokens'', False, TNumber)]\<rparr>"

definition RooCodeEvents :: ts_decl where
  "RooCodeEvents = \<lparr>d_name = ''RooCodeEvents'', d_kind = Interface, d_extends = [], d_body = TObject [
    (''message'', False, TTuple [(None, TObject [
        (''taskId'', False, TString),
        (''action'', False, TUnion [TLit ''created'', TLit ''updated'']),
        (''message'', False, TRef ''ClineMessage'' [])])]),
    (''taskStarted'', False, TTuple [(Some ''taskId'', TString)]),
    (''taskPaused'', False, TTuple [(Some ''taskId'', TString)]),
    (''taskUnpaused'', False, TTuple [(Some ''taskId'', TString)]),
    (''taskAskResponded'', False, TTuple [(Some ''taskId'', TString)]),
    (''taskAborted'', False, TTuple [(Some ''taskId'', TString)]),
    (''taskSpawned'', False, TTuple [(Some ''taskId'', TString), (Some ''childTaskId'', TString)]),
    (''taskCompleted'', False,
       TTuple [(Some ''taskId'', TString), (Some ''usage'', TRef ''TokenUsage'' [])]),
    (''taskTokenUsageUpdated'', False,
       TTuple [(Some ''taskId'', TString), (Some ''usage'', TRef ''TokenUsage'' [])])]\<rparr>"

definition RooCodeAPI :: ts_decl where
  "RooCodeAPI = \<lparr>d_name = ''RooCodeAPI'', d_kind = Interface,
    d_extends = [TRef ''EventEmitter'' [TRef ''RooCodeEvents'' []]], d_body = TObject [
    (''startNewTask'', False,
       TFun [(''task'', True, TString), (''images'', True, TArray TString)]
            (TRef ''Promise'' [TString])),
    (''getCurrentTaskStack'', False, TFun [] (TArray TString)),
    (''clearCurrentTask'', False,
       TFun [(''lastMessage'', True, TString)] (TRef ''Promise'' [TVoid])),
    (''cancelCurrentTask'', False, TFun [] (TRef ''Promise'' [TVoid])),
    (''sendMessage'', False,
       TFun [(''message'', True, TString), (''images'', True, TArray TString)]
            (TRef ''Promise'' [TVoid])),
    (''pressPrimaryButton'', False, TFun [] (TRef ''Promise'' [TVoid])),
    (''pressSecondaryButton'', False, TFun [] (TRef ''Promise'' [TVoid])),
    (''setConfiguration'', False,
       TFun [(''values'', False, TRef ''Partial'' [TRef ''ConfigurationValues'' []])]
            (TRef ''Promise'' [TVoid])),
    (''isReady'', False, TFun [] TBoolean),
    (''getMessages'', False, TFun [(''taskId'', False, TString)] (TArray (TRef ''ClineMessage'' []))),
    (''getTokenUsage'', False, TFun [(''taskId'', False, TString)] (TRef ''TokenUsage'' [])),
    (''log'', False, TFun [(''message'', False, TString)] TVoid)]\<rparr>"

definition ClineAsk :: ts_decl where
  "ClineAsk = \<lparr>d_name = ''ClineAsk'', d_kind = TypeAlias, d_extends = [], d_body = TUnion [
    TLit ''followup'', TLit ''command'', TLit ''command_output'', TLit ''completion_result'',
    TLit ''tool'', TLit ''api_req_failed'', TLit ''resume_task'',
    TLit ''resume_completed_task'', TLit ''mistake_limit_reached'',
    TLit ''browser_action_launch'', TLit ''use_mcp_server'', TLit ''finishTask'']\<rparr>"

definition ClineSay :: ts_decl where
  "ClineSay = \<lparr>d_name = ''ClineSay'', d_kind = TypeAlias, d_extends = [], d_body = TUnion [
    TLit ''task'', TLit ''error'', TLit ''api_req_started'', TLit ''api_req_finished'',
    TLit ''api_req_retried'', TLit ''api_req_retry_delayed'', TLit ''api_req_deleted'',
    TLit ''text'', TLit ''reasoning'', TLit ''completion_result'', TLit ''user_feedback'',
    TLit ''user_feedback_diff'', TLit ''command_output'', TLit ''tool'',
    TLit ''shell_integration_warning'', TLit ''browser_action'',
    TLit ''browser_action_result'', TLit ''command'', TLit ''mcp_server_request_started'',
    TLit ''mcp_server_response'', TLit ''new_task_started'', TLit ''new_task'',
    TLit ''checkpoint_saved'', TLit ''rooignore_error'']\<rparr>"

definition ClineMessage :: ts_decl where
  "ClineMessage = \<lparr>d_name = ''ClineMessage'', d_kind = Interface, d_extends = [], d_body = TObject [
    (''ts'', False, TNumber),
    (''type'', False, TUnion [TLit ''ask'', TLit ''say'']),
    (''ask'', True, TRef ''ClineAsk'' []),
    (''say'', True, TRef ''ClineSay'' []),
    (''text'', True, TString),
    (''images'', True, TArray TString),
    (''partial'', True, TBoolean),
    (''reasoning'', True, TString),
    (''conversationHistoryIndex'', True, TNumber),
    (''checkpoint'', True, TRef ''Record'' [TString, TUnknown]),
    (''progressStatus'', True, TRef ''ToolProgressStatus'' [])]\<rparr>"

definition SecretKey :: ts_decl where
  "SecretKey = \<lparr>d_name = ''SecretKey'', d_kind = TypeAlias, d_extends = [], d_body = TUnion [
    TLit ''apiKey'', TLit ''glamaApiKey'', TLit ''openRouterApiKey'', TLit ''awsAccessKey'',
    TLit ''awsSecretKey'', TLit ''awsSessionToken'', TLit ''openAiApiKey'',
    TLit ''geminiApiKey'', TLit ''openAiNativeApiKey'', TLit ''deepSeekApiKey'',
    TLit ''mistralApiKey'', TLit ''unboundApiKey'', TLit ''requestyApiKey'']\<rparr>"

definition GlobalStateKey :: ts_decl where
  "GlobalStateKey = \<lparr>d_name = ''GlobalStateKey'', d_kind = TypeAlias, d_extends = [], d_body = TUnion [
    TLit ''apiProvider'', TLit ''apiModelId'', TLit ''glamaModelId'', TLit ''glamaModelInfo'',
    TLit ''awsRegion'', TLit ''awsUseCrossRegionInference'', TLit ''awsProfile'',
    TLit ''awsUseProfile'', TLit ''awsCustomArn'', TLit ''vertexKeyFile'',
    TLit ''vertexJsonCredentials'', TLit ''vertexProjectId'', TLit ''vertexRegion'',
    TLit ''lastShownAnnouncementId'', TLit ''customInstructions'',
    TLit ''alwaysAllowReadOnly'', TLit ''alwaysAllowWrite'', TLit ''alwaysAllowExecute'',
    TLit ''alwaysAllowBrowser'', TLit ''alwaysAllowMcp'', TLit ''alwaysAllowModeSwitch'',
    TLit ''alwaysAllowSubtasks'', TLit ''taskHistory'', TLit ''openAiBaseUrl'',
    TLit ''openAiModelId'', TLit ''openAiCustomModelInfo'', TLit ''openAiUseAzure'',
    TLit ''ollamaModelId'', TLit ''ollamaBaseUrl'', TLit ''lmStudioModelId'',
    TLit ''lmStudioBaseUrl'', TLit ''anthropicBaseUrl'', TLit ''modelMaxThinkingTokens'',
    TLit ''azureApiVersion'', TLit ''openAiStreamingEnabled'', TLit ''openRouterModelId'',
    TLit ''openRouterModelInfo'', TLit ''openRouterBaseUrl'',
    TLit ''openRouterSpecificProvider'', TLit ''openRouterUseMiddleOutTransform'',
    TLit ''googleGeminiBaseUrl'', TLit ''allowedCommands'', TLit ''ttsEnabled'',
    TLit ''ttsSpeed'', TLit ''soundEnabled'', TLit ''soundVolume'', TLit ''diffEnabled'',
    TLit ''enableCheckpoints'', TLit ''checkpointStorage'', TLit ''browserViewportSize'',
    TLit ''screenshotQuality'', TLit ''remoteBrowserHost'', TLit ''fuzzyMatchThreshold'',
    TLit ''writeDelayMs'', TLit ''terminalOutputLineLimit'',
    TLit ''terminalShellIntegrationTimeout'', TLit ''mcpEnabled'',
    TLit ''enableMcpServerCreation'', TLit ''alwaysApproveResubmit'',
    TLit ''requestDelaySeconds'', TLit ''rateLimitSeconds'', TLit ''currentApiConfigName'',
    TLit ''listApiConfigMeta'', TLit ''vsCodeLmModelSelector'', TLit ''mode'',
    TLit ''modeApiConfigs'', TLit ''customModePrompts'', TLit ''customSupportPrompts'',
    TLit ''enhancementApiConfigId'', TLit ''experiments'', TLit ''autoApprovalEnabled'',
    TLit ''enableCustomModeCreation'', TLit ''customModes'', TLit ''unboundModelId'',
    TLit ''requestyModelId'', TLit ''requestyModelInfo'', TLit ''unboundModelInfo'',
    TLit ''modelTemperature'', TLit ''modelMaxTokens'', TLit ''mistralCodestralUrl'',
    TLit ''maxOpenTabsContext'', TLit ''maxWorkspaceFiles'', TLit ''browserToolEnabled'',
    TLit ''lmStudioSpeculativeDecodingEnabled'', TLit ''lmStudioDraftModelId'',
    TLit ''telemetrySetting'', TLit ''showRooIgnoredFiles'', TLit ''remoteBrowserEnabled'',
    TLit ''language'', TLit ''maxReadFileLine'', TLit ''fakeAi'']\<rparr>"

definition ConfigurationKey :: ts_decl where
  "ConfigurationKey = \<lparr>d_name = ''ConfigurationKey'', d_kind = TypeAlias, d_extends = [],
    d_body = TUnion [TRef ''GlobalStateKey'' [], TRef ''SecretKey'' []]\<rparr>"

definition ConfigurationValues :: ts_decl where
  "ConfigurationValues = \<lparr>d_name = ''ConfigurationValues'', d_kind = TypeAlias, d_extends = [],
    d_body = TRef ''Record'' [TRef ''ConfigurationKey'' [], TAny]\<rparr>"

definition declarations :: "ts_decl list" where
  "declarations = [TokenUsage, RooCodeEvents, RooCodeAPI, ClineAsk, ClineSay, ClineMessage,
     SecretKey, GlobalStateKey, ConfigurationKey, ConfigurationValues]"

subsection \<open>Names: declared, imported, referenced\<close>

fun lookup_decl :: "ts_decl list \<Rightarrow> string \<Rightarrow> ts_decl option" where
  "lookup_decl [] n = None"
| "lookup_decl (d # ds) n = (if d_name d = n then Some d else lookup_decl ds n)"

text \<open>Every type name a type expression mentions, in the order of the text.\<close>

fun refs_of :: "ts_type \<Rightarrow> string list" where
  "refs_of (TUnion ts) = concat (map refs_of ts)"
| "refs_of (TArray t) = refs_of t"
| "refs_of (TTuple es) = concat (map (\<lambda>e. refs_of (snd e)) es)"
| "refs_of (TObject ps) = concat (map (\<lambda>p. refs_of (snd (snd p))) ps)"
| "refs_of (TFun ps r) = concat (map (\<lambda>p. refs_of (snd (snd p))) ps) @ refs_of r"
| "refs_of (TRef n args) = n # concat (map refs_of args)"
| "refs_of t = []"

definition decl_refs :: "ts_decl \<Rightarrow> string list" where
  "decl_refs d = concat (map refs_of (d_extends d)) @ refs_of (d_body d)"

text \<open>
  The generic types of the TypeScript standard library that the file uses; they are in
  scope of every file without an import.
\<close>

definition global_lib_names :: "string list" where
  "global_lib_names = [''Promise'', ''Record'', ''Partial'']"

text \<open>The names the file mentions that are neither declared in it, imported, nor global.\<close>

definition unresolved_names :: "string list" where
  "unresolved_names =
     remdups (filter (\<lambda>n. lookup_decl declarations n = None
                          \<and> n \<notin> set (map fst imported)
                          \<and> n \<notin> set global_lib_names)
                     (concat (map decl_refs declarations)))"

subsection \<open>Which values a type admits\<close>

text \<open>
  The meaning of a name that the file does not declare (an imported, a global or an
  unresolved one) is no part of the file: it is the parameter \<open>L\<close>.
\<close>

type_synonym lib = "string \<Rightarrow> ts_type list \<Rightarrow> js_value \<Rightarrow> bool"

text \<open>The strictest reading: a name declared elsewhere admits nothing.\<close>

definition no_lib :: lib where
  "no_lib n args v = False"

text \<open>
  Structural conformance of a data value to a type expression: an optional property may be
  missing or \<^verbatim>\<open>undefined\<close>, a tuple fixes the length, an object may have properties the type
  does not list, and an interface also has to satisfy what it extends. A function type
  admits no data value. The counter \<open>k\<close> bounds how many declared names are unfolded in a
  row, so that the definition does not depend on the declarations being acyclic.
\<close>

fun conforms :: "lib \<Rightarrow> ts_decl list \<Rightarrow> nat \<Rightarrow> ts_type \<Rightarrow> js_value \<Rightarrow> bool" where
  "conforms L ds k TString v = (case v of VString s \<Rightarrow> True | _ \<Rightarrow> False)"
| "conforms L ds k TNumber v = (case v of VNumber x \<Rightarrow> True | _ \<Rightarrow> False)"
| "conforms L ds k TBoolean v = (case v of VBool b \<Rightarrow> True | _ \<Rightarrow> False)"
| "conforms L ds k TVoid v = (v = VUndefined)"
| "conforms L ds k TAny v = True"
| "conforms L ds k TUnknown v = True"
| "conforms L ds k (TLit s) v = (v = VString s)"
| "conforms L ds k (TUnion ts) v = list_ex (\<lambda>t. conforms L ds k t v) ts"
| "conforms L ds k (TArray t) v =
     (case v of VArray vs \<Rightarrow> list_all (conforms L ds k t) vs | _ \<Rightarrow> False)"
| "conforms L ds k (TTuple es) v =
     (case v of VArray vs \<Rightarrow> list_all2 (\<lambda>e w. conforms L ds k (snd e) w) es vs | _ \<Rightarrow> False)"
| "conforms L ds k (TObject ps) v =
     (case v of
        VObject kvs \<Rightarrow>
          list_all (\<lambda>p. case map_of kvs (fst p) of
                          None \<Rightarrow> fst (snd p)
                        | Some w \<Rightarrow> (fst (snd p) \<and> w = VUndefined)
                                    \<or> conforms L ds k (snd (snd p)) w) ps
      | _ \<Rightarrow> False)"
| "conforms L ds k (TFun ps r) v = False"
| "conforms L ds k (TRef n args) v =
     (case lookup_decl ds n of
        None \<Rightarrow> L n args v
      | Some d \<Rightarrow>
          (case k of
             0 \<Rightarrow> False
           | Suc k' \<Rightarrow> conforms L ds k' (d_body d) v
                       \<and> list_all (\<lambda>t. conforms L ds k' t v) (d_extends d)))"

text \<open>
  Conformance in this file: a chain of references between its declarations is no longer
  than their number. (Every bound from three on gives the same relation: lemma
  \<open>admits_any_fuel\<close> below.)
\<close>

definition admits :: "lib \<Rightarrow> ts_type \<Rightarrow> js_value \<Rightarrow> bool" where
  "admits L t v = conforms L declarations (length declarations) t v"

text \<open>The string literals of a union of literals, references to declared unions unfolded.\<close>

fun literals :: "ts_decl list \<Rightarrow> nat \<Rightarrow> ts_type \<Rightarrow> string list" where
  "literals ds k (TLit s) = [s]"
| "literals ds k (TUnion ts) = concat (map (literals ds k) ts)"
| "literals ds k (TRef n args) =
     (case lookup_decl ds n of
        None \<Rightarrow> []
      | Some d \<Rightarrow> (case k of 0 \<Rightarrow> [] | Suc k' \<Rightarrow> literals ds k' (d_body d)))"
| "literals ds k t = []"

definition string_values :: "ts_decl \<Rightarrow> string list" where
  "string_values d = literals declarations (length declarations) (d_body d)"

subsection \<open>Reading an interface\<close>

fun props :: "ts_type \<Rightarrow> (string \<times> bool \<times> ts_type) list" where
  "props (TObject ps) = ps"
| "props t = []"

fun returns :: "ts_type \<Rightarrow> ts_type option" where
  "returns (TFun ps r) = Some r"
| "returns t = None"

fun is_promise :: "ts_type \<Rightarrow> bool" where
  "is_promise (TRef n args) = (n = ''Promise'')"
| "is_promise t = False"

text \<open>The methods of an interface with their return types.\<close>

definition methods :: "ts_decl \<Rightarrow> (string \<times> ts_type) list" where
  "methods d = concat (map (\<lambda>p. case returns (snd (snd p)) of
                                   None \<Rightarrow> [] | Some r \<Rightarrow> [(fst p, r)]) (props (d_body d)))"

fun elems :: "ts_type \<Rightarrow> (string option \<times> ts_type) list" where
  "elems (TTuple es) = es"
| "elems t = []"

text \<open>The properties of a declaration without and with the \<^verbatim>\<open>?\<close>, each with its type.\<close>

definition required_props :: "ts_decl \<Rightarrow> (string \<times> ts_type) list" where
  "required_props d =
     map (\<lambda>p. (fst p, snd (snd p))) (filter (\<lambda>p. \<not> fst (snd p)) (props (d_body d)))"

definition optional_props :: "ts_decl \<Rightarrow> (string \<times> ts_type) list" where
  "optional_props d =
     map (\<lambda>p. (fst p, snd (snd p))) (filter (\<lambda>p. fst (snd p)) (props (d_body d)))"

subsection \<open>Events\<close>

text \<open>
  \<^verbatim>\<open>RooCodeAPI extends EventEmitter<RooCodeEvents>\<close>: the interface \<open>RooCodeEvents\<close> maps each
  event name to the tuple type of the arguments that the event is emitted with.
\<close>

definition payload :: "string \<Rightarrow> ts_type option" where
  "payload e = map_option (\<lambda>p. snd (snd p)) (find (\<lambda>p. fst p = e) (props (d_body RooCodeEvents)))"

definition emits :: "lib \<Rightarrow> string \<Rightarrow> js_value list \<Rightarrow> bool" where
  "emits L e args = (case payload e of None \<Rightarrow> False | Some t \<Rightarrow> admits L t (VArray args))"

text \<open>
  Where the declared payload of an event names the task: its first tuple element is
  labelled \<open>taskId\<close> and is a string, or its one element is an unlabelled object type with a
  required property \<open>taskId\<close> of type string. Any other payload names no task.
\<close>

datatype place = FirstElement | ObjectField

fun taskId_place :: "ts_type \<Rightarrow> place option" where
  "taskId_place (TTuple ((Some l, t) # es)) =
     (if l = ''taskId'' \<and> t = TString then Some FirstElement else None)"
| "taskId_place (TTuple [(None, TObject ps)]) =
     (if map_of ps ''taskId'' = Some (False, TString) then Some ObjectField else None)"
| "taskId_place t = None"

text \<open>What a listener reads at that place of the arguments of an event.\<close>

fun taskId_at :: "place \<Rightarrow> js_value list \<Rightarrow> string option" where
  "taskId_at FirstElement (VString t # rest) = Some t"
| "taskId_at ObjectField [VObject kvs] =
     (case map_of kvs ''taskId'' of Some (VString t) \<Rightarrow> Some t | _ \<Rightarrow> None)"
| "taskId_at p args = None"

subsection \<open>Messages\<close>

text \<open>
  A message object with the two required fields \<^verbatim>\<open>ts\<close> and \<^verbatim>\<open>type\<close>, and with \<^verbatim>\<open>ask\<close> and
  \<^verbatim>\<open>say\<close> when given.
\<close>

definition message_value :: "real \<Rightarrow> string \<Rightarrow> string option \<Rightarrow> string option \<Rightarrow> js_value" where
  "message_value ts ty a s =
     VObject ([(''ts'', VNumber ts), (''type'', VString ty)]
              @ (case a of None \<Rightarrow> [] | Some x \<Rightarrow> [(''ask'', VString x)])
              @ (case s of None \<Rightarrow> [] | Some x \<Rightarrow> [(''say'', VString x)]))"

text \<open>A property that is there and not \<^verbatim>\<open>undefined\<close>.\<close>

definition present :: "(string \<times> js_value) list \<Rightarrow> string \<Rightarrow> bool" where
  "present kvs f = (case map_of kvs f of None \<Rightarrow> False | Some w \<Rightarrow> w \<noteq> VUndefined)"

text \<open>
  The sub-kind follows the type: an \<^verbatim>\<open>ask\<close> message has an \<^verbatim>\<open>ask\<close> tag and no \<^verbatim>\<open>say\<close> tag, a
  \<^verbatim>\<open>say\<close> message a \<^verbatim>\<open>say\<close> tag and no \<^verbatim>\<open>ask\<close> tag.
\<close>

fun tag_follows_type :: "js_value \<Rightarrow> bool" where
  "tag_follows_type (VObject kvs) =
     (if map_of kvs ''type'' = Some (VString ''ask'')
        then present kvs ''ask'' \<and> \<not> present kvs ''say''
      else if map_of kvs ''type'' = Some (VString ''say'')
        then present kvs ''say'' \<and> \<not> present kvs ''ask''
      else False)"
| "tag_follows_type v = False"

section \<open>Properties of the contract\<close>

subsection \<open>Unfolding the declarations\<close>

lemmas conforms_TRef = conforms.simps(13)
lemmas literals_TRef = literals.simps(3)

declare conforms.simps(13) [simp del]
declare literals.simps(3) [simp del]

lemma len_decls: "length declarations = 10"
  by (simp add: declarations_def)

lemma admits_10: "admits L t v = conforms L declarations 10 t v"
  by (simp add: admits_def len_decls)

lemma decl_names:
  "d_name TokenUsage = ''TokenUsage''" "d_name RooCodeEvents = ''RooCodeEvents''"
  "d_name RooCodeAPI = ''RooCodeAPI''" "d_name ClineAsk = ''ClineAsk''"
  "d_name ClineSay = ''ClineSay''" "d_name ClineMessage = ''ClineMessage''"
  "d_name SecretKey = ''SecretKey''" "d_name GlobalStateKey = ''GlobalStateKey''"
  "d_name ConfigurationKey = ''ConfigurationKey''"
  "d_name ConfigurationValues = ''ConfigurationValues''"
  by (simp_all add: TokenUsage_def RooCodeEvents_def RooCodeAPI_def ClineAsk_def ClineSay_def
      ClineMessage_def SecretKey_def GlobalStateKey_def ConfigurationKey_def
      ConfigurationValues_def)

lemma lookup_declared:
  "lookup_decl declarations ''TokenUsage'' = Some TokenUsage"
  "lookup_decl declarations ''ClineAsk'' = Some ClineAsk"
  "lookup_decl declarations ''ClineSay'' = Some ClineSay"
  "lookup_decl declarations ''ClineMessage'' = Some ClineMessage"
  "lookup_decl declarations ''SecretKey'' = Some SecretKey"
  "lookup_decl declarations ''GlobalStateKey'' = Some GlobalStateKey"
  "lookup_decl declarations ''ConfigurationKey'' = Some ConfigurationKey"
  by (simp_all add: declarations_def decl_names)

lemma lookup_undeclared:
  "lookup_decl declarations ''ToolProgressStatus'' = None"
  "lookup_decl declarations ''Record'' = None"
  by (simp_all add: declarations_def decl_names)

lemma extends_empty:
  "d_extends ClineSay = []" "d_extends ClineAsk = []" "d_extends SecretKey = []"
  "d_extends GlobalStateKey = []" "d_extends ConfigurationKey = []"
  "d_extends ClineMessage = []" "d_extends TokenUsage = []"
  by (simp_all add: ClineSay_def ClineAsk_def SecretKey_def GlobalStateKey_def
      ConfigurationKey_def ClineMessage_def TokenUsage_def)

lemma conforms_TString: "conforms L ds k TString v = (\<exists>s. v = VString s)"
  by (cases v) simp_all

lemma conforms_TNumber: "conforms L ds k TNumber v = (\<exists>x. v = VNumber x)"
  by (cases v) simp_all

lemma conforms_TBoolean: "conforms L ds k TBoolean v = (\<exists>b. v = VBool b)"
  by (cases v) simp_all

declare conforms.simps(1-3) [simp del]
declare conforms_TString [simp] conforms_TNumber [simp] conforms_TBoolean [simp]

subsection \<open>Unions of string literals\<close>

lemma conforms_literal_union:
  "conforms L ds k (TUnion (map TLit ss)) v = (v \<in> VString ` set ss)"
  by (induction ss) auto

lemma literals_literal_union: "literals ds k (TUnion (map TLit ss)) = ss"
  by (induction ss) auto

lemma inj_on_VString: "inj_on VString A"
  by (simp add: inj_on_def)

lemma ClineSay_body: "d_body ClineSay = TUnion (map TLit (string_values ClineSay))"
  by (simp add: string_values_def ClineSay_def)

lemma ClineAsk_body: "d_body ClineAsk = TUnion (map TLit (string_values ClineAsk))"
  by (simp add: string_values_def ClineAsk_def)

lemma SecretKey_body: "d_body SecretKey = TUnion (map TLit (string_values SecretKey))"
  by (simp add: string_values_def SecretKey_def)

lemma GlobalStateKey_body:
  "d_body GlobalStateKey = TUnion (map TLit (string_values GlobalStateKey))"
  by (simp add: string_values_def GlobalStateKey_def)

lemma conforms_ClineSay:
  "0 < k \<Longrightarrow> conforms L declarations k (TRef ''ClineSay'' []) v
     = (v \<in> VString ` set (string_values ClineSay))"
  by (cases k) (simp_all add: conforms_TRef lookup_declared extends_empty ClineSay_body
      conforms_literal_union del: conforms.simps(8))

lemma conforms_ClineAsk:
  "0 < k \<Longrightarrow> conforms L declarations k (TRef ''ClineAsk'' []) v
     = (v \<in> VString ` set (string_values ClineAsk))"
  by (cases k) (simp_all add: conforms_TRef lookup_declared extends_empty ClineAsk_body
      conforms_literal_union del: conforms.simps(8))

lemma conforms_SecretKey:
  "0 < k \<Longrightarrow> conforms L declarations k (TRef ''SecretKey'' []) v
     = (v \<in> VString ` set (string_values SecretKey))"
  by (cases k) (simp_all add: conforms_TRef lookup_declared extends_empty SecretKey_body
      conforms_literal_union del: conforms.simps(8))

lemma conforms_GlobalStateKey:
  "0 < k \<Longrightarrow> conforms L declarations k (TRef ''GlobalStateKey'' []) v
     = (v \<in> VString ` set (string_values GlobalStateKey))"
  by (cases k) (simp_all add: conforms_TRef lookup_declared extends_empty GlobalStateKey_body
      conforms_literal_union del: conforms.simps(8))

lemma literals_GlobalStateKey:
  "0 < k \<Longrightarrow> literals declarations k (TRef ''GlobalStateKey'' []) = string_values GlobalStateKey"
  by (cases k) (simp_all add: literals_TRef lookup_declared GlobalStateKey_body
      literals_literal_union del: literals.simps(2))

lemma literals_SecretKey:
  "0 < k \<Longrightarrow> literals declarations k (TRef ''SecretKey'' []) = string_values SecretKey"
  by (cases k) (simp_all add: literals_TRef lookup_declared SecretKey_body
      literals_literal_union del: literals.simps(2))

lemma ClineSay_list:
  "string_values ClineSay =
     [''task'', ''error'', ''api_req_started'', ''api_req_finished'', ''api_req_retried'',
      ''api_req_retry_delayed'', ''api_req_deleted'', ''text'', ''reasoning'',
      ''completion_result'', ''user_feedback'', ''user_feedback_diff'', ''command_output'',
      ''tool'', ''shell_integration_warning'', ''browser_action'', ''browser_action_result'',
      ''command'', ''mcp_server_request_started'', ''mcp_server_response'',
      ''new_task_started'', ''new_task'', ''checkpoint_saved'', ''rooignore_error'']"
  by (simp add: string_values_def ClineSay_def)

lemma ClineAsk_list:
  "string_values ClineAsk =
     [''followup'', ''command'', ''command_output'', ''completion_result'', ''tool'',
      ''api_req_failed'', ''resume_task'', ''resume_completed_task'',
      ''mistake_limit_reached'', ''browser_action_launch'', ''use_mcp_server'', ''finishTask'']"
  by (simp add: string_values_def ClineAsk_def)

lemma ClineSay_card: "card (set (string_values ClineSay)) = 24"
  by (simp add: ClineSay_list)

lemma ClineAsk_card: "card (set (string_values ClineAsk)) = 12"
  by (simp add: ClineAsk_list)

lemma ClineSay_admitted:
  "{v. admits L (TRef ''ClineSay'' []) v} = VString ` set (string_values ClineSay)"
  by (simp add: admits_10 conforms_ClineSay)

lemma ClineAsk_admitted:
  "{v. admits L (TRef ''ClineAsk'' []) v} = VString ` set (string_values ClineAsk)"
  by (simp add: admits_10 conforms_ClineAsk)

text \<open>
  C1, as the file has it: the values that \<open>ClineSay\<close> admits are exactly its declared string
  literals, and these are 24 pairwise different strings (not 20): the list below, in the
  order of the source.
\<close>

theorem ClineSay_values:
  "{v. admits L (TRef ''ClineSay'' []) v} = VString ` set (string_values ClineSay)
   \<and> string_values ClineSay =
     [''task'', ''error'', ''api_req_started'', ''api_req_finished'', ''api_req_retried'',
      ''api_req_retry_delayed'', ''api_req_deleted'', ''text'', ''reasoning'',
      ''completion_result'', ''user_feedback'', ''user_feedback_diff'', ''command_output'',
      ''tool'', ''shell_integration_warning'', ''browser_action'', ''browser_action_result'',
      ''command'', ''mcp_server_request_started'', ''mcp_server_response'',
      ''new_task_started'', ''new_task'', ''checkpoint_saved'', ''rooignore_error'']
   \<and> card {v. admits L (TRef ''ClineSay'' []) v} = 24"
proof -
  have "card (VString ` set (string_values ClineSay)) = 24"
    by (simp add: card_image inj_on_VString ClineSay_card)
  then show ?thesis
    by (simp only: ClineSay_admitted ClineSay_list [symmetric] simp_thms)
qed

text \<open>
  C1 as the specification states it fails: the number of values that \<open>ClineSay\<close> admits
  is not 20.
\<close>

theorem ClineSay_not_20: "card {v. admits no_lib (TRef ''ClineSay'' []) v} \<noteq> 20"
  by (simp add: ClineSay_admitted card_image inj_on_VString ClineSay_card)

text \<open>
  C2, as the file has it: the values that \<open>ClineAsk\<close> admits are exactly its declared string
  literals, and these are 12 pairwise different strings (not 13): the list below, in the
  order of the source.
\<close>

theorem ClineAsk_values:
  "{v. admits L (TRef ''ClineAsk'' []) v} = VString ` set (string_values ClineAsk)
   \<and> string_values ClineAsk =
     [''followup'', ''command'', ''command_output'', ''completion_result'', ''tool'',
      ''api_req_failed'', ''resume_task'', ''resume_completed_task'',
      ''mistake_limit_reached'', ''browser_action_launch'', ''use_mcp_server'', ''finishTask'']
   \<and> card {v. admits L (TRef ''ClineAsk'' []) v} = 12"
proof -
  have "card (VString ` set (string_values ClineAsk)) = 12"
    by (simp add: card_image inj_on_VString ClineAsk_card)
  then show ?thesis
    by (simp only: ClineAsk_admitted ClineAsk_list [symmetric] simp_thms)
qed

text \<open>
  C2 as the specification states it fails: the number of values that \<open>ClineAsk\<close> admits
  is not 13.
\<close>

theorem ClineAsk_not_13: "card {v. admits no_lib (TRef ''ClineAsk'' []) v} \<noteq> 13"
  by (simp add: ClineAsk_admitted card_image inj_on_VString ClineAsk_card)

subsection \<open>Configuration keys\<close>

lemma keys_disjoint: "set (string_values GlobalStateKey) \<inter> set (string_values SecretKey) = {}"
  by (simp add: string_values_def GlobalStateKey_def SecretKey_def)

lemma ConfigurationKey_list:
  "string_values ConfigurationKey = string_values GlobalStateKey @ string_values SecretKey"
proof -
  have "string_values ConfigurationKey =
      literals declarations 10 (TUnion [TRef ''GlobalStateKey'' [], TRef ''SecretKey'' []])"
    unfolding string_values_def [of ConfigurationKey] by (simp add: len_decls ConfigurationKey_def)
  then show ?thesis
    by (simp add: literals_GlobalStateKey literals_SecretKey)
qed

lemma conforms_ConfigurationKey:
  "conforms L declarations 10 (TRef ''ConfigurationKey'' []) v =
     (conforms L declarations 10 (TRef ''GlobalStateKey'' []) v
      \<or> conforms L declarations 10 (TRef ''SecretKey'' []) v)"
proof -
  have "conforms L declarations 10 (TRef ''ConfigurationKey'' []) v =
      conforms L declarations 9 (TUnion [TRef ''GlobalStateKey'' [], TRef ''SecretKey'' []]) v"
    by (simp add: conforms_TRef lookup_declared extends_empty ConfigurationKey_def)
  then show ?thesis
    by (simp add: conforms_GlobalStateKey conforms_SecretKey)
qed

text \<open>
  C3: no string is both a \<open>GlobalStateKey\<close> and a \<open>SecretKey\<close> literal, the literals of
  \<open>ConfigurationKey\<close> are those of the two together, and the same holds of the values the
  three types admit.
\<close>

theorem configuration_keys_disjoint_union:
  "set (string_values GlobalStateKey) \<inter> set (string_values SecretKey) = {}
   \<and> set (string_values ConfigurationKey)
       = set (string_values GlobalStateKey) \<union> set (string_values SecretKey)
   \<and> {v. admits L (TRef ''GlobalStateKey'' []) v} \<inter> {v. admits L (TRef ''SecretKey'' []) v} = {}
   \<and> {v. admits L (TRef ''ConfigurationKey'' []) v}
       = {v. admits L (TRef ''GlobalStateKey'' []) v} \<union> {v. admits L (TRef ''SecretKey'' []) v}"
proof -
  have g: "{v. admits L (TRef ''GlobalStateKey'' []) v} = VString ` set (string_values GlobalStateKey)"
    by (simp add: admits_10 conforms_GlobalStateKey)
  have s: "{v. admits L (TRef ''SecretKey'' []) v} = VString ` set (string_values SecretKey)"
    by (simp add: admits_10 conforms_SecretKey)
  have d: "VString ` set (string_values GlobalStateKey) \<inter> VString ` set (string_values SecretKey) = {}"
    using keys_disjoint by auto
  have u: "{v. admits L (TRef ''ConfigurationKey'' []) v}
       = {v. admits L (TRef ''GlobalStateKey'' []) v} \<union> {v. admits L (TRef ''SecretKey'' []) v}"
    by (simp only: admits_10 conforms_ConfigurationKey Collect_disj_eq)
  show ?thesis
    using keys_disjoint d u by (simp only: g s ConfigurationKey_list set_append simp_thms)
qed

subsection \<open>Token usage\<close>

lemma TokenUsage_body: "d_body TokenUsage = TObject [
    (''totalTokensIn'', False, TNumber),
    (''totalTokensOut'', False, TNumber),
    (''totalCacheWrites'', True, TNumber),
    (''totalCacheReads'', True, TNumber),
    (''totalCost'', False, TNumber),
    (''contextTokens'', False, TNumber)]"
  by (simp add: TokenUsage_def)

lemma admits_TokenUsage_object:
  "admits L (TRef ''TokenUsage'' []) (VObject kvs) =
     (list_all (\<lambda>f. \<exists>x. map_of kvs f = Some (VNumber x))
        [''totalTokensIn'', ''totalTokensOut'', ''totalCost'', ''contextTokens'']
      \<and> list_all (\<lambda>f. map_of kvs f = None \<or> map_of kvs f = Some VUndefined
                       \<or> (\<exists>x. map_of kvs f = Some (VNumber x)))
        [''totalCacheWrites'', ''totalCacheReads''])"
  by (auto simp add: admits_10 conforms_TRef lookup_declared extends_empty TokenUsage_body
      split: option.splits)

text \<open>
  C5: \<open>TokenUsage\<close> declares six properties and extends nothing. The required ones are
  \<open>totalTokensIn\<close>, \<open>totalTokensOut\<close>, \<open>totalCost\<close> and \<open>contextTokens\<close>, the optional ones
  \<open>totalCacheWrites\<close> and \<open>totalCacheReads\<close>, all of type \<^verbatim>\<open>number\<close>. So an object is a
  \<open>TokenUsage\<close> exactly when the four required properties are numbers and each optional
  one is missing, \<^verbatim>\<open>undefined\<close> or a number.
\<close>

theorem TokenUsage_fields:
  "required_props TokenUsage =
     [(''totalTokensIn'', TNumber), (''totalTokensOut'', TNumber),
      (''totalCost'', TNumber), (''contextTokens'', TNumber)]
   \<and> optional_props TokenUsage = [(''totalCacheWrites'', TNumber), (''totalCacheReads'', TNumber)]
   \<and> map fst (props (d_body TokenUsage)) =
       [''totalTokensIn'', ''totalTokensOut'', ''totalCacheWrites'', ''totalCacheReads'',
        ''totalCost'', ''contextTokens'']
   \<and> d_extends TokenUsage = []
   \<and> admits L (TRef ''TokenUsage'' []) (VObject kvs) =
       (list_all (\<lambda>f. \<exists>x. map_of kvs f = Some (VNumber x))
          [''totalTokensIn'', ''totalTokensOut'', ''totalCost'', ''contextTokens'']
        \<and> list_all (\<lambda>f. map_of kvs f = None \<or> map_of kvs f = Some VUndefined
                         \<or> (\<exists>x. map_of kvs f = Some (VNumber x)))
          [''totalCacheWrites'', ''totalCacheReads''])"
proof -
  have "required_props TokenUsage =
     [(''totalTokensIn'', TNumber), (''totalTokensOut'', TNumber),
      (''totalCost'', TNumber), (''contextTokens'', TNumber)]"
    by (simp add: required_props_def TokenUsage_body)
  moreover have "optional_props TokenUsage =
      [(''totalCacheWrites'', TNumber), (''totalCacheReads'', TNumber)]"
    by (simp add: optional_props_def TokenUsage_body)
  moreover have "map fst (props (d_body TokenUsage)) =
       [''totalTokensIn'', ''totalTokensOut'', ''totalCacheWrites'', ''totalCacheReads'',
        ''totalCost'', ''contextTokens'']"
    by (simp add: TokenUsage_body)
  ultimately show ?thesis
    using admits_TokenUsage_object [of L kvs] extends_empty(7) by (intro conjI)
qed

subsection \<open>Messages\<close>

lemma ClineMessage_body: "d_body ClineMessage = TObject [
    (''ts'', False, TNumber),
    (''type'', False, TUnion [TLit ''ask'', TLit ''say'']),
    (''ask'', True, TRef ''ClineAsk'' []),
    (''say'', True, TRef ''ClineSay'' []),
    (''text'', True, TString),
    (''images'', True, TArray TString),
    (''partial'', True, TBoolean),
    (''reasoning'', True, TString),
    (''conversationHistoryIndex'', True, TNumber),
    (''checkpoint'', True, TRef ''Record'' [TString, TUnknown]),
    (''progressStatus'', True, TRef ''ToolProgressStatus'' [])]"
  by (simp add: ClineMessage_def)

lemma admits_ClineMessage:
  "admits L (TRef ''ClineMessage'' []) v = conforms L declarations 9 (d_body ClineMessage) v"
  by (simp add: admits_10 conforms_TRef lookup_declared extends_empty)

lemma admits_message_value:
  "admits L (TRef ''ClineMessage'' []) (message_value ts ty a s) =
     ((ty = ''ask'' \<or> ty = ''say'')
      \<and> (case a of None \<Rightarrow> True | Some x \<Rightarrow> x \<in> set (string_values ClineAsk))
      \<and> (case s of None \<Rightarrow> True | Some x \<Rightarrow> x \<in> set (string_values ClineSay)))"
  by (cases a; cases s)
     (auto simp add: admits_ClineMessage ClineMessage_body message_value_def
        conforms_ClineAsk conforms_ClineSay)

lemma ClineMessage_object:
  assumes "admits L (TRef ''ClineMessage'' []) v"
  obtains kvs where "v = VObject kvs"
  using assms by (cases v) (simp_all add: admits_ClineMessage ClineMessage_body)

lemma ClineMessage_type:
  "admits L (TRef ''ClineMessage'' []) (VObject kvs) \<Longrightarrow>
     map_of kvs ''type'' = Some (VString ''ask'') \<or> map_of kvs ''type'' = Some (VString ''say'')"
  by (simp add: admits_ClineMessage ClineMessage_body split: option.splits)

lemma ClineMessage_ask:
  "admits L (TRef ''ClineMessage'' []) (VObject kvs) \<Longrightarrow> present kvs ''ask'' \<Longrightarrow>
     map_of kvs ''ask'' \<in> Some ` VString ` set (string_values ClineAsk)"
  by (auto simp add: admits_ClineMessage ClineMessage_body conforms_ClineAsk present_def
      split: option.splits)

lemma ClineMessage_say:
  "admits L (TRef ''ClineMessage'' []) (VObject kvs) \<Longrightarrow> present kvs ''say'' \<Longrightarrow>
     map_of kvs ''say'' \<in> Some ` VString ` set (string_values ClineSay)"
  by (auto simp add: admits_ClineMessage ClineMessage_body conforms_ClineSay present_def
      split: option.splits)

text \<open>
  C8, as the file has it: a \<open>ClineMessage\<close> is an object whose \<open>type\<close> is \<open>ask\<close> or \<open>say\<close>;
  its \<open>ask\<close> tag, when present, is one of the \<open>ClineAsk\<close> values and its \<open>say\<close> tag, when
  present, one of the \<open>ClineSay\<close> values. The two tags are optional whatever the \<open>type\<close>:
  a message made of \<open>ts\<close>, \<open>type\<close> and any choice of the two tags is a \<open>ClineMessage\<close> as
  soon as each part is well-formed by itself.
\<close>

theorem ClineMessage_tags:
  "(admits L (TRef ''ClineMessage'' []) v \<longrightarrow>
      (\<exists>kvs. v = VObject kvs
        \<and> (map_of kvs ''type'' = Some (VString ''ask'')
            \<or> map_of kvs ''type'' = Some (VString ''say''))
        \<and> (present kvs ''ask'' \<longrightarrow>
             map_of kvs ''ask'' \<in> Some ` VString ` set (string_values ClineAsk))
        \<and> (present kvs ''say'' \<longrightarrow>
             map_of kvs ''say'' \<in> Some ` VString ` set (string_values ClineSay))))
   \<and> admits L (TRef ''ClineMessage'' []) (message_value ts ty a s) =
       ((ty = ''ask'' \<or> ty = ''say'')
        \<and> (case a of None \<Rightarrow> True | Some x \<Rightarrow> x \<in> set (string_values ClineAsk))
        \<and> (case s of None \<Rightarrow> True | Some x \<Rightarrow> x \<in> set (string_values ClineSay)))"
proof (intro conjI impI)
  assume a: "admits L (TRef ''ClineMessage'' []) v"
  then obtain kvs where v: "v = VObject kvs"
    by (rule ClineMessage_object)
  with a have k: "admits L (TRef ''ClineMessage'' []) (VObject kvs)"
    by simp
  show "\<exists>kvs. v = VObject kvs
        \<and> (map_of kvs ''type'' = Some (VString ''ask'')
            \<or> map_of kvs ''type'' = Some (VString ''say''))
        \<and> (present kvs ''ask'' \<longrightarrow>
             map_of kvs ''ask'' \<in> Some ` VString ` set (string_values ClineAsk))
        \<and> (present kvs ''say'' \<longrightarrow>
             map_of kvs ''say'' \<in> Some ` VString ` set (string_values ClineSay))"
    using v ClineMessage_type [OF k] ClineMessage_ask [OF k] ClineMessage_say [OF k]
    by blast
next
  show "admits L (TRef ''ClineMessage'' []) (message_value ts ty a s) =
       ((ty = ''ask'' \<or> ty = ''say'')
        \<and> (case a of None \<Rightarrow> True | Some x \<Rightarrow> x \<in> set (string_values ClineAsk))
        \<and> (case s of None \<Rightarrow> True | Some x \<Rightarrow> x \<in> set (string_values ClineSay)))"
    by (rule admits_message_value)
qed

theorem ClineMessage_tags_witness:
  "admits no_lib (TRef ''ClineMessage'' [])
     (VObject [(''ts'', VNumber 1), (''type'', VString ''say''),
               (''ask'', VString ''tool''), (''say'', VString ''text'')])
   \<and> present [(''ts'', VNumber 1), (''type'', VString ''say''),
               (''ask'', VString ''tool''), (''say'', VString ''text'')] ''ask''
   \<and> present [(''ts'', VNumber 1), (''type'', VString ''say''),
               (''ask'', VString ''tool''), (''say'', VString ''text'')] ''say''
   \<and> ''tool'' \<in> set (string_values ClineAsk)
   \<and> ''text'' \<in> set (string_values ClineSay)"
proof -
  have m: "admits no_lib (TRef ''ClineMessage'' []) (message_value 1 ''say'' (Some ''tool'') (Some ''text''))"
    by (simp add: admits_message_value ClineAsk_list ClineSay_list)
  from ClineMessage_tags [of no_lib "message_value 1 ''say'' (Some ''tool'') (Some ''text'')"] m
  show ?thesis
    by (auto simp add: message_value_def present_def)
qed

text \<open>
  C8 as the specification states it fails: the object below is a \<open>ClineMessage\<close> of type
  \<open>ask\<close> that has a \<open>say\<close> tag and no \<open>ask\<close> tag.
\<close>

theorem ClineMessage_ask_with_say_tag:
  "admits no_lib (TRef ''ClineMessage'' [])
     (VObject [(''ts'', VNumber 0), (''type'', VString ''ask''), (''say'', VString ''text'')])
   \<and> \<not> tag_follows_type
     (VObject [(''ts'', VNumber 0), (''type'', VString ''ask''), (''say'', VString ''text'')])"
  by (simp add: admits_ClineMessage ClineMessage_body conforms_ClineSay ClineSay_list present_def)

lemma unresolved_list: "unresolved_names = [''ToolProgressStatus'']"
  by (simp add: unresolved_names_def declarations_def decl_refs_def imported_def
      global_lib_names_def TokenUsage_def RooCodeEvents_def RooCodeAPI_def ClineAsk_def
      ClineSay_def ClineMessage_def SecretKey_def GlobalStateKey_def ConfigurationKey_def
      ConfigurationValues_def)

text \<open>
  C10: the property \<open>progressStatus\<close> of \<open>ClineMessage\<close> is optional and of the type named
  \<open>ToolProgressStatus\<close>. The file does not declare that name, and its one import is
  \<open>EventEmitter\<close> from \<open>events\<close>; it is the one name of the file that resolves to nothing,
  so which values the property admits is decided outside the file alone.
\<close>

theorem progressStatus_unresolved:
  "map_of (props (d_body ClineMessage)) ''progressStatus''
     = Some (True, TRef ''ToolProgressStatus'' [])
   \<and> lookup_decl declarations ''ToolProgressStatus'' = None
   \<and> imported = [(''EventEmitter'', ''events'')]
   \<and> unresolved_names = [''ToolProgressStatus'']
   \<and> admits L (TRef ''ToolProgressStatus'' []) v = L ''ToolProgressStatus'' [] v"
  by (simp add: unresolved_list lookup_undeclared imported_def admits_10 conforms_TRef
      ClineMessage_body)

subsection \<open>Events\<close>

lemma event_names:
  "map fst (props (d_body RooCodeEvents)) =
     [''message'', ''taskStarted'', ''taskPaused'', ''taskUnpaused'', ''taskAskResponded'',
      ''taskAborted'', ''taskSpawned'', ''taskCompleted'', ''taskTokenUsageUpdated'']"
  by (simp add: RooCodeEvents_def)

lemma find_fst_None: "(find (\<lambda>p. fst p = e) ps = None) = (e \<notin> set (map fst ps))"
  by (induction ps) auto

lemma payload_dom: "dom payload = set (map fst (props (d_body RooCodeEvents)))"
  by (auto simp add: dom_def payload_def find_fst_None simp del: set_map)

lemma payload_message:
  "payload ''message'' = Some (TTuple [(None, TObject [
        (''taskId'', False, TString),
        (''action'', False, TUnion [TLit ''created'', TLit ''updated'']),
        (''message'', False, TRef ''ClineMessage'' [])])])"
  by (simp add: payload_def RooCodeEvents_def)

lemma payload_taskId:
  "payload ''taskStarted'' = Some (TTuple [(Some ''taskId'', TString)])"
  "payload ''taskPaused'' = Some (TTuple [(Some ''taskId'', TString)])"
  "payload ''taskUnpaused'' = Some (TTuple [(Some ''taskId'', TString)])"
  "payload ''taskAskResponded'' = Some (TTuple [(Some ''taskId'', TString)])"
  "payload ''taskAborted'' = Some (TTuple [(Some ''taskId'', TString)])"
  by (simp_all add: payload_def RooCodeEvents_def)

lemma payload_taskSpawned:
  "payload ''taskSpawned'' = Some (TTuple [(Some ''taskId'', TString), (Some ''childTaskId'', TString)])"
  by (simp add: payload_def RooCodeEvents_def)

lemma payload_usage:
  "payload ''taskCompleted'' = Some (TTuple [(Some ''taskId'', TString), (Some ''usage'', TRef ''TokenUsage'' [])])"
  "payload ''taskTokenUsageUpdated'' = Some (TTuple [(Some ''taskId'', TString), (Some ''usage'', TRef ''TokenUsage'' [])])"
  by (simp_all add: payload_def RooCodeEvents_def)

lemma admits_single:
  "admits L (TTuple [(l, TString)]) (VArray args) = (\<exists>t. args = [VString t])"
  by (auto simp add: admits_10 list_all2_Cons1)

lemma admits_pair_strings:
  "admits L (TTuple [(l, TString), (m, TString)]) (VArray args)
     = (\<exists>t c. args = [VString t, VString c])"
  by (auto simp add: admits_10 list_all2_Cons1)

lemma admits_with_usage:
  "admits L (TTuple [(l, TString), (m, TRef ''TokenUsage'' [])]) (VArray args)
     = (\<exists>t u. args = [VString t, u] \<and> admits L (TRef ''TokenUsage'' []) u)"
  by (auto simp add: admits_10 list_all2_Cons1)

lemma admits_message_payload:
  "admits L (TTuple [(None, TObject [
        (''taskId'', False, TString),
        (''action'', False, TUnion [TLit ''created'', TLit ''updated'']),
        (''message'', False, TRef ''ClineMessage'' [])])]) (VArray args)
   = (\<exists>kvs t a m. args = [VObject kvs]
        \<and> map_of kvs ''taskId'' = Some (VString t)
        \<and> map_of kvs ''action'' = Some (VString a) \<and> (a = ''created'' \<or> a = ''updated'')
        \<and> map_of kvs ''message'' = Some m \<and> admits L (TRef ''ClineMessage'' []) m)"
  apply (simp add: admits_10 list_all2_Cons1)
  apply (rule iffI)
   apply (elim exE conjE)
  subgoal for z
    by (cases z) (auto split: option.splits)
  apply (elim exE conjE)
  by simp

lemma emits_taskId_only:
  "emits L ''taskStarted'' args = (\<exists>t. args = [VString t])"
  "emits L ''taskPaused'' args = (\<exists>t. args = [VString t])"
  "emits L ''taskUnpaused'' args = (\<exists>t. args = [VString t])"
  "emits L ''taskAskResponded'' args = (\<exists>t. args = [VString t])"
  "emits L ''taskAborted'' args = (\<exists>t. args = [VString t])"
  by (simp_all only: emits_def payload_taskId option.case admits_single)

lemma emits_taskSpawned:
  "emits L ''taskSpawned'' args = (\<exists>t c. args = [VString t, VString c])"
  by (simp only: emits_def payload_taskSpawned option.case admits_pair_strings)

lemma emits_usage:
  "emits L ''taskCompleted'' args
     = (\<exists>t u. args = [VString t, u] \<and> admits L (TRef ''TokenUsage'' []) u)"
  "emits L ''taskTokenUsageUpdated'' args
     = (\<exists>t u. args = [VString t, u] \<and> admits L (TRef ''TokenUsage'' []) u)"
  by (simp_all only: emits_def payload_usage option.case admits_with_usage)

lemma emits_message:
  "emits L ''message'' args
   = (\<exists>kvs t a m. args = [VObject kvs]
        \<and> map_of kvs ''taskId'' = Some (VString t)
        \<and> map_of kvs ''action'' = Some (VString a) \<and> (a = ''created'' \<or> a = ''updated'')
        \<and> map_of kvs ''message'' = Some m \<and> admits L (TRef ''ClineMessage'' []) m)"
  by (simp only: emits_def payload_message option.case admits_message_payload)

lemma emits_declared: "emits L e args \<Longrightarrow> e \<in> dom payload"
  by (auto simp add: emits_def split: option.splits)

lemma event_labels:
  "map (\<lambda>p. (fst p, map fst (elems (snd (snd p))))) (props (d_body RooCodeEvents)) =
     [(''message'', [None]),
      (''taskStarted'', [Some ''taskId'']),
      (''taskPaused'', [Some ''taskId'']),
      (''taskUnpaused'', [Some ''taskId'']),
      (''taskAskResponded'', [Some ''taskId'']),
      (''taskAborted'', [Some ''taskId'']),
      (''taskSpawned'', [Some ''taskId'', Some ''childTaskId'']),
      (''taskCompleted'', [Some ''taskId'', Some ''usage'']),
      (''taskTokenUsageUpdated'', [Some ''taskId'', Some ''usage''])]"
  by (simp add: RooCodeEvents_def)

lemma emits_message_ex:
  "emits L ''message'' [VObject [(''taskId'', VString ''t1''), (''action'', VString ''created''),
     (''message'', message_value 0 ''say'' None None)]]"
  by (simp add: emits_message admits_message_value)

lemma every_event_emitted:
  "e \<in> set (map fst (props (d_body RooCodeEvents))) \<Longrightarrow> \<exists>args. emits L e args"
proof -
  assume "e \<in> set (map fst (props (d_body RooCodeEvents)))"
  then have d: "e = ''message'' \<or> e = ''taskStarted'' \<or> e = ''taskPaused''
      \<or> e = ''taskUnpaused'' \<or> e = ''taskAskResponded'' \<or> e = ''taskAborted''
      \<or> e = ''taskSpawned'' \<or> e = ''taskCompleted'' \<or> e = ''taskTokenUsageUpdated''"
    by (simp only: event_names list.set insert_iff empty_iff simp_thms)
  have m: "\<exists>args. emits L ''message'' args"
    using emits_message_ex by (rule exI)
  have s: "\<exists>args. \<exists>t. args = [VString t]"
    by blast
  have p: "\<exists>args. \<exists>t c. args = [VString t, VString c]"
    by blast
  have "admits L (TRef ''TokenUsage'' [])
      (VObject [(''totalTokensIn'', VNumber 0), (''totalTokensOut'', VNumber 0),
                (''totalCost'', VNumber 0), (''contextTokens'', VNumber 0)])"
    by (simp add: admits_TokenUsage_object)
  then have u: "\<exists>args. \<exists>t u. args = [VString t, u] \<and> admits L (TRef ''TokenUsage'' []) u"
    by blast
  from d show ?thesis
    using m s p u by (elim disjE) (simp_all only: emits_taskId_only emits_taskSpawned emits_usage)
qed

lemma emitted_events:
  "{e. \<exists>args. emits L e args} = set (map fst (props (d_body RooCodeEvents)))"
proof (intro set_eqI iffI)
  fix e
  assume "e \<in> {e. \<exists>args. emits L e args}"
  then show "e \<in> set (map fst (props (d_body RooCodeEvents)))"
    using emits_declared by (auto simp only: payload_dom [symmetric])
next
  fix e
  assume "e \<in> set (map fst (props (d_body RooCodeEvents)))"
  then show "e \<in> {e. \<exists>args. emits L e args}"
    using every_event_emitted by simp
qed


text \<open>
  C4: \<open>RooCodeEvents\<close> declares nine events, in this order and with these argument labels,
  and they are the events that can be emitted. \<open>message\<close> is emitted with one object whose
  \<open>taskId\<close> is a string, whose \<open>action\<close> is \<open>created\<close> or \<open>updated\<close> and whose \<open>message\<close> is a
  \<open>ClineMessage\<close>; \<open>taskStarted\<close>, \<open>taskPaused\<close>, \<open>taskUnpaused\<close>, \<open>taskAskResponded\<close> and
  \<open>taskAborted\<close> with one string; \<open>taskSpawned\<close> with two strings; \<open>taskCompleted\<close> and
  \<open>taskTokenUsageUpdated\<close> with a string and a \<open>TokenUsage\<close>.
\<close>

theorem event_contract:
  "map (\<lambda>p. (fst p, map fst (elems (snd (snd p))))) (props (d_body RooCodeEvents)) =
     [(''message'', [None]),
      (''taskStarted'', [Some ''taskId'']),
      (''taskPaused'', [Some ''taskId'']),
      (''taskUnpaused'', [Some ''taskId'']),
      (''taskAskResponded'', [Some ''taskId'']),
      (''taskAborted'', [Some ''taskId'']),
      (''taskSpawned'', [Some ''taskId'', Some ''childTaskId'']),
      (''taskCompleted'', [Some ''taskId'', Some ''usage'']),
      (''taskTokenUsageUpdated'', [Some ''taskId'', Some ''usage''])]
   \<and> {e. \<exists>args. emits L e args} = set (map fst (props (d_body RooCodeEvents)))
   \<and> emits L ''message'' args
       = (\<exists>kvs t a m. args = [VObject kvs]
            \<and> map_of kvs ''taskId'' = Some (VString t)
            \<and> map_of kvs ''action'' = Some (VString a) \<and> (a = ''created'' \<or> a = ''updated'')
            \<and> map_of kvs ''message'' = Some m \<and> admits L (TRef ''ClineMessage'' []) m)
   \<and> emits L ''taskStarted'' args = (\<exists>t. args = [VString t])
   \<and> emits L ''taskPaused'' args = (\<exists>t. args = [VString t])
   \<and> emits L ''taskUnpaused'' args = (\<exists>t. args = [VString t])
   \<and> emits L ''taskAskResponded'' args = (\<exists>t. args = [VString t])
   \<and> emits L ''taskAborted'' args = (\<exists>t. args = [VString t])
   \<and> emits L ''taskSpawned'' args = (\<exists>t c. args = [VString t, VString c])
   \<and> emits L ''taskCompleted'' args
       = (\<exists>t u. args = [VString t, u] \<and> admits L (TRef ''TokenUsage'' []) u)
   \<and> emits L ''taskTokenUsageUpdated'' args
       = (\<exists>t u. args = [VString t, u] \<and> admits L (TRef ''TokenUsage'' []) u)"
  using event_labels emitted_events [of L] emits_message [of L args]
    emits_taskId_only [of L args] emits_taskSpawned [of L args] emits_usage [of L args]
  by (intro conjI)

lemma event_places:
  "map (\<lambda>p. (fst p, taskId_place (snd (snd p)))) (props (d_body RooCodeEvents)) =
     [(''message'', Some ObjectField),
      (''taskStarted'', Some FirstElement),
      (''taskPaused'', Some FirstElement),
      (''taskUnpaused'', Some FirstElement),
      (''taskAskResponded'', Some FirstElement),
      (''taskAborted'', Some FirstElement),
      (''taskSpawned'', Some FirstElement),
      (''taskCompleted'', Some FirstElement),
      (''taskTokenUsageUpdated'', Some FirstElement)]"
  by (simp add: RooCodeEvents_def)

lemma emitted_taskId:
  assumes a: "emits L e args"
  shows "\<exists>ty p t. payload e = Some ty \<and> taskId_place ty = Some p \<and> taskId_at p args = Some t"
proof -
  have "e \<in> set [''message'', ''taskStarted'', ''taskPaused'', ''taskUnpaused'',
      ''taskAskResponded'', ''taskAborted'', ''taskSpawned'', ''taskCompleted'',
      ''taskTokenUsageUpdated'']"
    using emits_declared [OF a] by (simp only: payload_dom event_names)
  then have d: "e = ''message'' \<or> e = ''taskStarted'' \<or> e = ''taskPaused''
      \<or> e = ''taskUnpaused'' \<or> e = ''taskAskResponded'' \<or> e = ''taskAborted''
      \<or> e = ''taskSpawned'' \<or> e = ''taskCompleted'' \<or> e = ''taskTokenUsageUpdated''"
    by (simp only: list.set insert_iff empty_iff simp_thms)
  have m: "emits L ''message'' args \<Longrightarrow>
      \<exists>ty p t. payload ''message'' = Some ty \<and> taskId_place ty = Some p
        \<and> taskId_at p args = Some t"
    by (auto simp add: emits_message payload_message)
  have s: "(\<exists>t. args = [VString t]) \<Longrightarrow>
      \<exists>p t. taskId_place (TTuple [(Some ''taskId'', TString)]) = Some p
        \<and> taskId_at p args = Some t"
    by auto
  have p: "emits L ''taskSpawned'' args \<Longrightarrow>
      \<exists>ty p t. payload ''taskSpawned'' = Some ty \<and> taskId_place ty = Some p
        \<and> taskId_at p args = Some t"
    by (auto simp add: emits_taskSpawned payload_taskSpawned)
  have u: "(\<exists>t u. args = [VString t, u] \<and> admits L (TRef ''TokenUsage'' []) u) \<Longrightarrow>
      \<exists>p t. taskId_place (TTuple [(Some ''taskId'', TString),
                  (Some ''usage'', TRef ''TokenUsage'' [])]) = Some p
        \<and> taskId_at p args = Some t"
    by auto
  from d a show ?thesis
    using m s p u
    by (elim disjE)
       (simp_all only: emits_taskId_only emits_usage payload_taskId payload_usage
          option.inject simp_thms ex_simps)
qed

text \<open>
  C9: each of the nine events declares where its payload names the task: \<open>message\<close> in the
  required string property \<open>taskId\<close> of its one object, every other event in a first tuple
  element that is labelled \<open>taskId\<close> and is a string. So whatever event the contract admits,
  a listener reads the task's ID at the place the declaration of that event gives.
\<close>

theorem events_carry_taskId:
  "map (\<lambda>p. (fst p, taskId_place (snd (snd p)))) (props (d_body RooCodeEvents)) =
     [(''message'', Some ObjectField),
      (''taskStarted'', Some FirstElement),
      (''taskPaused'', Some FirstElement),
      (''taskUnpaused'', Some FirstElement),
      (''taskAskResponded'', Some FirstElement),
      (''taskAborted'', Some FirstElement),
      (''taskSpawned'', Some FirstElement),
      (''taskCompleted'', Some FirstElement),
      (''taskTokenUsageUpdated'', Some FirstElement)]
   \<and> (emits L e args \<longrightarrow>
        (\<exists>ty p t. payload e = Some ty \<and> taskId_place ty = Some p
           \<and> taskId_at p args = Some t))"
  using event_places emitted_taskId [of L e args] by (intro conjI impI)

theorem events_carry_taskId_witness:
  "emits no_lib ''taskSpawned'' [VString ''t1'', VString ''t2'']
   \<and> payload ''taskSpawned''
       = Some (TTuple [(Some ''taskId'', TString), (Some ''childTaskId'', TString)])
   \<and> taskId_place (TTuple [(Some ''taskId'', TString), (Some ''childTaskId'', TString)])
       = Some FirstElement
   \<and> taskId_at FirstElement [VString ''t1'', VString ''t2''] = Some ''t1''"
proof -
  have e: "emits no_lib ''taskSpawned'' [VString ''t1'', VString ''t2'']"
    by (simp add: emits_taskSpawned)
  from events_carry_taskId [of no_lib "''taskSpawned''" "[VString ''t1'', VString ''t2'']"]
  show ?thesis
    using e by (simp add: payload_taskSpawned)
qed

subsection \<open>The methods of the API\<close>

text \<open>
  C6: every member of \<open>RooCodeAPI\<close> is a method. Seven of them return a promise:
  \<open>startNewTask\<close> one of a string, the six others one of nothing. The five others return
  at once: \<open>getCurrentTaskStack\<close> an array of strings, \<open>isReady\<close> a boolean, \<open>getMessages\<close>
  an array of \<open>ClineMessage\<close>, \<open>getTokenUsage\<close> a \<open>TokenUsage\<close>, and \<open>log\<close> nothing.
\<close>

theorem api_methods:
  "filter (\<lambda>m. is_promise (snd m)) (methods RooCodeAPI) =
     [(''startNewTask'', TRef ''Promise'' [TString]),
      (''clearCurrentTask'', TRef ''Promise'' [TVoid]),
      (''cancelCurrentTask'', TRef ''Promise'' [TVoid]),
      (''sendMessage'', TRef ''Promise'' [TVoid]),
      (''pressPrimaryButton'', TRef ''Promise'' [TVoid]),
      (''pressSecondaryButton'', TRef ''Promise'' [TVoid]),
      (''setConfiguration'', TRef ''Promise'' [TVoid])]
   \<and> filter (\<lambda>m. \<not> is_promise (snd m)) (methods RooCodeAPI) =
     [(''getCurrentTaskStack'', TArray TString),
      (''isReady'', TBoolean),
      (''getMessages'', TArray (TRef ''ClineMessage'' [])),
      (''getTokenUsage'', TRef ''TokenUsage'' []),
      (''log'', TVoid)]
   \<and> length (methods RooCodeAPI) = length (props (d_body RooCodeAPI))"
  by (simp add: methods_def RooCodeAPI_def)

subsection \<open>The bound on unfolding does not matter\<close>

text \<open>
  No chain of references between the declarations of the file is longer than three, so
  conformance is the same for every bound from three on: \<open>admits\<close> loses nothing by
  fixing one.
\<close>

lemma lookup_in_set: "lookup_decl ds n = Some d \<Longrightarrow> d \<in> set ds"
  by (induction ds) (auto split: if_splits)

lemma snd_in_snds: "snd e \<in> Basic_BNFs.snds e"
  by (cases e) simp

lemma stable_step:
  assumes "\<And>d w. d \<in> set declarations \<Longrightarrow>
             conforms L declarations (Suc j) (d_body d) w = conforms L declarations j (d_body d) w"
      and "\<And>d t w. d \<in> set declarations \<Longrightarrow> t \<in> set (d_extends d) \<Longrightarrow>
             conforms L declarations (Suc j) t w = conforms L declarations j t w"
  shows "conforms L declarations (Suc (Suc j)) t v = conforms L declarations (Suc j) t v"
proof (induction t arbitrary: v)
  case (TUnion ts)
  then show ?case by (simp add: list_ex_iff)
next
  case (TArray t)
  then show ?case by (cases v) (simp_all add: list_all_iff)
next
  case (TTuple es)
  have "list_all2 (\<lambda>e w. conforms L declarations (Suc (Suc j)) (snd e) w) es vs
      = list_all2 (\<lambda>e w. conforms L declarations (Suc j) (snd e) w) es vs" for vs
    by (rule list.rel_cong) (simp_all add: TTuple snd_in_snds)
  then show ?case by (cases v) simp_all
next
  case (TObject ps)
  have "conforms L declarations (Suc (Suc j)) (snd (snd p)) w
      = conforms L declarations (Suc j) (snd (snd p)) w" if "p \<in> set ps" for p w
    using that by (rule TObject [of p "snd p"]) (rule snd_in_snds)+
  then show ?case
    by (cases v) (simp_all add: list_all_iff split: option.splits)
next
  case (TRef n args)
  show ?case
    using assms lookup_in_set [of declarations n]
    by (auto simp add: conforms_TRef list_all_iff split: option.splits)
qed simp_all

lemma conforms_TString_fun: "conforms L ds k TString = (\<lambda>v. \<exists>s. v = VString s)"
  by (rule ext) simp

lemma conforms_two_literals:
  "conforms L ds k (TUnion [TLit a, TLit b]) v = (v = VString a \<or> v = VString b)"
  by simp

lemma bodies_stable_each:
  "conforms L declarations 3 (d_body TokenUsage) w = conforms L declarations 2 (d_body TokenUsage) w"
  "conforms L declarations 3 (d_body RooCodeEvents) w = conforms L declarations 2 (d_body RooCodeEvents) w"
  "conforms L declarations 3 (d_body RooCodeAPI) w = conforms L declarations 2 (d_body RooCodeAPI) w"
  "conforms L declarations 3 (d_body ClineAsk) w = conforms L declarations 2 (d_body ClineAsk) w"
  "conforms L declarations 3 (d_body ClineSay) w = conforms L declarations 2 (d_body ClineSay) w"
  "conforms L declarations 3 (d_body ClineMessage) w = conforms L declarations 2 (d_body ClineMessage) w"
  "conforms L declarations 3 (d_body SecretKey) w = conforms L declarations 2 (d_body SecretKey) w"
  "conforms L declarations 3 (d_body GlobalStateKey) w = conforms L declarations 2 (d_body GlobalStateKey) w"
  "conforms L declarations 3 (d_body ConfigurationKey) w = conforms L declarations 2 (d_body ConfigurationKey) w"
  "conforms L declarations 3 (d_body ConfigurationValues) w = conforms L declarations 2 (d_body ConfigurationValues) w"
  subgoal by (cases w) (simp_all add: TokenUsage_body cong: option.case_cong)
  subgoal by (cases w) (simp_all add: RooCodeEvents_def conforms_TRef lookup_declared lookup_undeclared extends_empty ClineMessage_body TokenUsage_body ClineAsk_body ClineSay_body conforms_literal_union conforms_two_literals conforms_TString_fun list_all2_Cons1 del: conforms.simps(8) cong: option.case_cong js_value.case_cong)
  subgoal by (cases w) (simp_all add: RooCodeAPI_def cong: option.case_cong)
  subgoal by (simp add: ClineAsk_body conforms_literal_union del: conforms.simps(8))
  subgoal by (simp add: ClineSay_body conforms_literal_union del: conforms.simps(8))
  subgoal by (cases w) (simp_all add: conforms_TRef lookup_declared lookup_undeclared extends_empty ClineMessage_body ClineAsk_body ClineSay_body conforms_literal_union conforms_two_literals conforms_TString_fun del: conforms.simps(8) cong: option.case_cong js_value.case_cong)
  subgoal by (simp add: SecretKey_body conforms_literal_union del: conforms.simps(8))
  subgoal by (simp add: GlobalStateKey_body conforms_literal_union del: conforms.simps(8))
  subgoal by (simp add: ConfigurationKey_def conforms_GlobalStateKey conforms_SecretKey)
  subgoal by (simp add: ConfigurationValues_def conforms_TRef lookup_undeclared)
  done

lemma declared_cases:
  assumes "d \<in> set declarations"
  shows "d = TokenUsage \<or> d = RooCodeEvents \<or> d = RooCodeAPI \<or> d = ClineAsk
      \<or> d = ClineSay \<or> d = ClineMessage \<or> d = SecretKey \<or> d = GlobalStateKey
      \<or> d = ConfigurationKey \<or> d = ConfigurationValues"
  using assms by (simp only: declarations_def list.set insert_iff empty_iff simp_thms)

lemma bodies_stable_2:
  assumes "d \<in> set declarations"
  shows "conforms L declarations 3 (d_body d) w = conforms L declarations 2 (d_body d) w"
  using declared_cases [OF assms] bodies_stable_each [of L w] by (elim disjE) simp_all

lemma extends_stable:
  assumes "d \<in> set declarations" and "t \<in> set (d_extends d)"
  shows "conforms L declarations (Suc j) t w = conforms L declarations j t w"
  using declared_cases [OF assms(1)] assms(2)
  by (elim disjE)
     (simp_all add: TokenUsage_def RooCodeEvents_def RooCodeAPI_def ClineAsk_def ClineSay_def
        ClineMessage_def SecretKey_def GlobalStateKey_def ConfigurationKey_def
        ConfigurationValues_def conforms_TRef declarations_def)

lemma bodies_stable:
  "d \<in> set declarations \<Longrightarrow>
     conforms L declarations (Suc (Suc (Suc j))) (d_body d) w
       = conforms L declarations (Suc (Suc j)) (d_body d) w"
proof (induction j arbitrary: d w)
  case 0
  then show ?case
    using bodies_stable_2 [of d L w] by (simp only: numeral_3_eq_3 numeral_2_eq_2)
next
  case (Suc j)
  show ?case
    by (rule stable_step) (simp_all only: Suc.IH extends_stable)
qed

lemma fuel_step:
  "conforms L declarations (Suc (Suc (Suc (Suc j)))) t v
     = conforms L declarations (Suc (Suc (Suc j))) t v"
  by (rule stable_step) (simp_all only: bodies_stable extends_stable)

lemma fuel_enough: "conforms L declarations (Suc (Suc (Suc j))) t v = conforms L declarations 3 t v"
  by (induction j) (simp_all only: fuel_step numeral_3_eq_3)

lemma admits_any_fuel: "3 \<le> k \<Longrightarrow> conforms L declarations k t v = admits L t v"
proof -
  assume "3 \<le> k"
  then have "k = Suc (Suc (Suc (k - 3)))"
    by arith
  then obtain j where k: "k = Suc (Suc (Suc j))" ..
  have "(10::nat) = Suc (Suc (Suc 7))"
    by simp
  then have "admits L t v = conforms L declarations 3 t v"
    by (simp only: admits_10 fuel_enough)
  then show ?thesis
    by (simp only: k fuel_enough)
qed

end
